theory Spec2Isabelle
  imports Main "HOL-Library.Sublist"
begin

section \<open>Python values, strings and errors\<close>

text \<open>
  The builders of \<^verbatim>\<open>sqlstrings/postgre.py\<close> concatenate Python strings. A Python
  \<^verbatim>\<open>str\<close> is modelled as \<^typ>\<open>string\<close>; the statements the library writes are ASCII, where
  one \<^typ>\<open>char\<close> is one Python character. A dictionary keeps its insertion order and the
  builders iterate over it in that order, so a \<^verbatim>\<open>dict\<close> is an association list (its keys
  are distinct in Python; no builder looks a key up, so nothing below depends on it).
\<close>

type_synonym 'v dict = "(string \<times> 'v) list"

definition keys :: "'v dict \<Rightarrow> string list" where
  "keys d = map fst d"

definition py_values :: "'v dict \<Rightarrow> 'v list" where
  "py_values d = map snd d"

definition items :: "'v dict \<Rightarrow> (string \<times> 'v) list" where
  "items d = d"

text \<open>The exceptions a builder can raise on an input of its declared type.\<close>

datatype error = TypeError | IndexError

text \<open>
  The column values handed to the builders are dynamically typed. The kinds the
  specification names are absent values, text and numbers; floating point numbers are
  left out.
\<close>

datatype val = PyNone | PyStr string | PyInt int

text \<open>
  The objects \<^verbatim>\<open>str.join\<close> can meet in this module: a string, or the one-element set
  that \<^verbatim>\<open>{write_val(v)}\<close> builds.
\<close>

datatype obj = Str string | SetOf "string set"

subsection \<open>Rendering of integers: \<^verbatim>\<open>str(n)\<close> and \<^verbatim>\<open>f'{n}'\<close>\<close>

definition digit :: "nat \<Rightarrow> char" where
  "digit n = ''0123456789'' ! (n mod 10)"

fun str_of_nat :: "nat \<Rightarrow> string" where
  "str_of_nat n = (if n < 10 then [digit n] else str_of_nat (n div 10) @ [digit n])"

declare str_of_nat.simps [simp del]

definition str_of_int :: "int \<Rightarrow> string" where
  "str_of_int i = (if i < 0 then CHR ''-'' # str_of_nat (nat (- i)) else str_of_nat (nat i))"

subsection \<open>\<^verbatim>\<open>sep.join(...)\<close>\<close>

text \<open>On a sequence of strings \<^verbatim>\<open>sep.join\<close> puts the separator between neighbours.\<close>

fun join :: "string \<Rightarrow> string list \<Rightarrow> string" where
  "join sep [] = []"
| "join sep [x] = x"
| "join sep (x # y # ys) = x @ sep @ join sep (y # ys)"

text \<open>
  On a sequence of arbitrary objects \<^verbatim>\<open>sep.join\<close> raises \<^verbatim>\<open>TypeError\<close> at the first
  item that is not a string (\<^verbatim>\<open>sequence item 0: expected str instance, set found\<close>).
\<close>

fun the_strs :: "obj list \<Rightarrow> error + string list" where
  "the_strs [] = Inr []"
| "the_strs (Str s # os) = (case the_strs os of Inl e \<Rightarrow> Inl e | Inr ss \<Rightarrow> Inr (s # ss))"
| "the_strs (SetOf S # os) = Inl TypeError"

definition join_objs :: "string \<Rightarrow> obj list \<Rightarrow> error + string" where
  "join_objs sep os = (case the_strs os of Inl e \<Rightarrow> Inl e | Inr ss \<Rightarrow> Inr (join sep ss))"

text \<open>
  \<^verbatim>\<open>map(f, xs)\<close> with an \<^verbatim>\<open>f\<close> that may raise, consumed from left to right: the first
  exception ends the iteration.
\<close>

fun map_raising :: "('a \<Rightarrow> error + 'b) \<Rightarrow> 'a list \<Rightarrow> error + 'b list" where
  "map_raising f [] = Inr []"
| "map_raising f (x # xs) =
     (case f x of
        Inl e \<Rightarrow> Inl e
      | Inr y \<Rightarrow> (case map_raising f xs of Inl e \<Rightarrow> Inl e | Inr ys \<Rightarrow> Inr (y # ys)))"

subsection \<open>The value formatter\<close>

text \<open>
  Modelled from the spec: \<^verbatim>\<open>write_val\<close> of \<^verbatim>\<open>sqlstrings/value_handling.py\<close>, which
  \<^verbatim>\<open>postgre.py\<close> imports and which is not among the sources. The specification says of
  it: "given a value of unknown/dynamic kind, return its SQL literal text -- quoting
  string kinds, rendering NULL for absent values, passing numeric kinds unquoted", and
  gives \<^verbatim>\<open>'x'\<close> for the text \<^verbatim>\<open>x\<close> and \<^verbatim>\<open>1\<close> for the number 1. Embedded quotes are left
  undefined by the specification; the model does not escape them.
\<close>

fun write_val :: "val \<Rightarrow> string" where
  "write_val PyNone = ''NULL''"
| "write_val (PyStr s) = CHR 0x27 # s @ [CHR 0x27]"
| "write_val (PyInt i) = str_of_int i"

section \<open>The statement builders\<close>

text \<open>
  The calls of \<^verbatim>\<open>logging.debug\<close> and \<^verbatim>\<open>logger.debug\<close> write a copy of the result to the
  log and do not change it; they are left out of the model.
\<close>

subsection \<open>\<^verbatim>\<open>insert\<close>\<close>

text \<open>
  \<^verbatim>\<open>names_values\<close> is a dictionary or a list of dictionaries. The local function
  \<^verbatim>\<open>args_serialise\<close> maps every value \<^verbatim>\<open>v\<close> to the set \<^verbatim>\<open>{write_val(v)}\<close> and joins the
  sets. In the list case \<^verbatim>\<open>names_values[0]\<close> is read first, which raises \<^verbatim>\<open>IndexError\<close>
  on the empty list. The builder is called \<open>insert_sql\<close> here, \<open>insert\<close> being the set
  operation of HOL; for the same reason the parameters \<^verbatim>\<open>where\<close> and \<^verbatim>\<open>distinct\<close> of the
  builders carry a prime.
\<close>

datatype names_values = Dict "val dict" | DictList "val dict list"

definition args_serialise :: "val dict \<Rightarrow> error + string" where
  "args_serialise value_dict =
     join_objs '', '' (map (\<lambda>v. SetOf {write_val v}) (py_values value_dict))"

definition paren_row :: "val dict \<Rightarrow> error + string" where
  "paren_row d =
     (case args_serialise d of Inl e \<Rightarrow> Inl e | Inr s \<Rightarrow> Inr (''('' @ s @ '')''))"

definition insert_tail :: "string \<Rightarrow> string list \<Rightarrow> string \<Rightarrow> string" where
  "insert_tail table_name names values_str =
     ''INSERT INTO '' @ table_name @ ''\<newline>'' @
     [CHR 0x09] @ table_name @ ''('' @ join '', '' names @ '')\<newline>VALUES\<newline>'' @
     [CHR 0x09] @ values_str @ '';''"

fun insert_sql :: "string \<Rightarrow> names_values \<Rightarrow> error + string" where
  "insert_sql table_name (DictList ds) =
     (case ds of
        [] \<Rightarrow> Inl IndexError
      | d0 # _ \<Rightarrow>
          (case map_raising paren_row ds of
             Inl e \<Rightarrow> Inl e
           | Inr rows \<Rightarrow>
               Inr (insert_tail table_name (keys d0) (join ('', \<newline>'' @ [CHR 0x09]) rows))))"
| "insert_sql table_name (Dict d) =
     (case paren_row d of
        Inl e \<Rightarrow> Inl e
      | Inr values_str \<Rightarrow> Inr (insert_tail table_name (keys d) values_str))"

subsection \<open>\<^verbatim>\<open>update\<close>, \<^verbatim>\<open>create_table\<close>, \<^verbatim>\<open>procedure_call\<close>\<close>

definition update :: "string \<Rightarrow> val dict \<Rightarrow> string option \<Rightarrow> string" where
  "update table_name names_values where' =
     (let outstr = ''UPDATE '' @ table_name @ ''\<newline>SET '';
          outstr = outstr @ join '',\<newline>    ''
                     (map (\<lambda>kvp. fst kvp @ '' = '' @ write_val (snd kvp)) (items names_values))
      in case where' of
           Some w \<Rightarrow> outstr @ ''\<newline>WHERE '' @ w @ '';''
         | None \<Rightarrow> outstr)"

definition create_table :: "string \<Rightarrow> string dict \<Rightarrow> string" where
  "create_table table_name names_types =
     (let outstr = ''CREATE TABLE '' @ table_name @ '' (''
      in outstr @ join ('',\<newline>'' @ [CHR 0x09])
                    (map (\<lambda>kvp. fst kvp @ '' '' @ snd kvp) (items names_types))
                @ ''\<newline>);'')"

definition procedure_call :: "string \<Rightarrow> val dict \<Rightarrow> string" where
  "procedure_call proc_name param_args =
     ''CALL '' @ proc_name @ ''('' @
     join '', '' (map (\<lambda>kvp. write_val (snd kvp)) (items param_args)) @ '');''"

subsection \<open>\<^verbatim>\<open>drop_table\<close>\<close>

text \<open>\<^verbatim>\<open>table_names\<close> is one name or a list of names.\<close>

datatype table_names = Name string | Names "string list"

definition drop_table :: "table_names \<Rightarrow> bool \<Rightarrow> bool \<Rightarrow> bool \<Rightarrow> string" where
  "drop_table table_names if_exists cascade restrict =
     (let outstr = ''DROP TABLE '';
          outstr = outstr @ (if if_exists then '' IF EXISTS  '' else '''');
          outstr = outstr @ (case table_names of Name s \<Rightarrow> s | Names ns \<Rightarrow> join '', '' ns);
          outstr = outstr @ (if cascade \<and> \<not> restrict then '' CASCADE'' else '''');
          outstr = outstr @ (if restrict \<and> \<not> cascade then '' RESTRICT'' else '''')
      in outstr @ '';'')"

subsection \<open>\<^verbatim>\<open>select\<close>\<close>

text \<open>
  \<^verbatim>\<open>cols\<close>, \<^verbatim>\<open>group_by\<close> and \<^verbatim>\<open>order_by\<close> are a string or a tuple of strings; a string is
  turned into a tuple with \<^verbatim>\<open>tuple(s)\<close>, the tuple of its characters.
\<close>

datatype str_or_tuple = PlainStr string | Tuple "string list"

definition tuple_of_str :: "string \<Rightarrow> string list" where
  "tuple_of_str s = map (\<lambda>c. [c]) s"

fun as_tuple :: "str_or_tuple \<Rightarrow> string list" where
  "as_tuple (PlainStr s) = tuple_of_str s"
| "as_tuple (Tuple t) = t"

definition select ::
  "str_or_tuple \<Rightarrow> string \<Rightarrow> bool \<Rightarrow> string option \<Rightarrow> str_or_tuple option \<Rightarrow> string option \<Rightarrow>
   str_or_tuple option \<Rightarrow> bool \<Rightarrow> int option \<Rightarrow> int option \<Rightarrow> int option \<Rightarrow> string" where
  "select cols frm distinct' where' group_by having order_by order_desc limit offset fetch =
     (let cols = as_tuple cols;
          outstr = ''SELECT '' @ (if distinct' then ''DISTINCT '' else '''') @ join '', '' cols;
          outstr = outstr @ ''\<newline>FROM '' @ frm;
          outstr = outstr @ (case where' of None \<Rightarrow> '''' | Some w \<Rightarrow> ''\<newline>WHERE '' @ w);
          outstr = (case group_by of
                      Some g \<Rightarrow> outstr @ ''\<newline>GROUP BY '' @ join '', '' (as_tuple g)
                    | None \<Rightarrow> outstr);
          outstr = outstr @ (case having of None \<Rightarrow> '''' | Some h \<Rightarrow> ''\<newline>HAVING '' @ h);
          outstr = (case order_by of
                      Some ob \<Rightarrow> outstr @ ''\<newline>ORDER BY '' @ join '', '' (as_tuple ob)
                                  @ (if \<not> order_desc then '''' else '' DESC'')
                    | None \<Rightarrow> if order_desc then outstr @ ''\<newline>ORDER BY DESC'' else outstr);
          outstr = outstr @ (case limit of None \<Rightarrow> ''''
                             | Some l \<Rightarrow> ''\<newline>LIMIT '' @ str_of_int l);
          outstr = outstr @ (case offset of None \<Rightarrow> ''''
                             | Some off \<Rightarrow> ''\<newline>OFFSET '' @ str_of_int off @ '' ROWS'');
          outstr = outstr @ (case fetch of None \<Rightarrow> ''''
                             | Some f \<Rightarrow> ''\<newline>FETCH FIRST '' @ str_of_int f @ '' ROWS ONLY'')
      in outstr @ '';'')"

section \<open>Notions used by the properties\<close>

text \<open>
  An argument of \<^verbatim>\<open>insert\<close> contains a column when it is a non-empty dictionary, or a
  list in which some dictionary is non-empty.
\<close>

fun has_column :: "names_values \<Rightarrow> bool" where
  "has_column (Dict d) = (d \<noteq> [])"
| "has_column (DictList ds) = list_ex (\<lambda>d. d \<noteq> []) ds"

text \<open>
  The specification's description of \<^verbatim>\<open>select\<close>: the clauses SELECT, FROM, WHERE,
  GROUP BY, HAVING, ORDER BY, LIMIT, OFFSET, FETCH, concatenated in this order, where a
  clause whose argument is omitted contributes nothing. The text of a clause that is
  present is the one the source writes.
\<close>

definition opt_clause :: "('a \<Rightarrow> string) \<Rightarrow> 'a option \<Rightarrow> string" where
  "opt_clause render arg = (case arg of None \<Rightarrow> [] | Some a \<Rightarrow> render a)"

definition select_spec ::
  "str_or_tuple \<Rightarrow> string \<Rightarrow> bool \<Rightarrow> string option \<Rightarrow> str_or_tuple option \<Rightarrow> string option \<Rightarrow>
   str_or_tuple option \<Rightarrow> bool \<Rightarrow> int option \<Rightarrow> int option \<Rightarrow> int option \<Rightarrow> string" where
  "select_spec cols frm distinct' where' group_by having order_by order_desc limit offset fetch =
     concat
       [''SELECT '' @ (if distinct' then ''DISTINCT '' else '''') @ join '', '' (as_tuple cols),
        ''\<newline>FROM '' @ frm,
        opt_clause (\<lambda>w. ''\<newline>WHERE '' @ w) where',
        opt_clause (\<lambda>g. ''\<newline>GROUP BY '' @ join '', '' (as_tuple g)) group_by,
        opt_clause (\<lambda>h. ''\<newline>HAVING '' @ h) having,
        opt_clause (\<lambda>ob. ''\<newline>ORDER BY '' @ join '', '' (as_tuple ob) @
                          (if order_desc then '' DESC'' else '''')) order_by,
        opt_clause (\<lambda>l. ''\<newline>LIMIT '' @ str_of_int l) limit,
        opt_clause (\<lambda>off. ''\<newline>OFFSET '' @ str_of_int off @ '' ROWS'') offset,
        opt_clause (\<lambda>f. ''\<newline>FETCH FIRST '' @ str_of_int f @ '' ROWS ONLY'') fetch]
     @ '';''"

section \<open>Properties of \<^verbatim>\<open>insert\<close>\<close>

text \<open>The serialiser succeeds on the empty dictionary only.\<close>

lemma args_serialise_cases:
  "args_serialise d = (if d = [] then Inr [] else Inl TypeError)"
  by (cases d) (simp_all add: args_serialise_def join_objs_def py_values_def)

lemma paren_row_cases:
  "paren_row d = (if d = [] then Inr ''()'' else Inl TypeError)"
  by (simp add: paren_row_def args_serialise_cases)

lemma map_raising_paren_row:
  "map_raising paren_row ds =
     (if list_ex (\<lambda>d. d \<noteq> []) ds then Inl TypeError else Inr (map (\<lambda>_. ''()'') ds))"
  by (induction ds) (simp_all add: paren_row_cases)

lemma insert_sql_cases:
  "insert_sql t nv =
     (if has_column nv then Inl TypeError
      else case nv of
             Dict d \<Rightarrow> Inr (insert_tail t [] ''()'')
           | DictList ds \<Rightarrow>
               (if ds = [] then Inl IndexError
                else Inr (insert_tail t [] (join ('', \<newline>'' @ [CHR 0x09]) (map (\<lambda>_. ''()'') ds)))))"
proof (cases nv)
  case (Dict d)
  then show ?thesis by (simp add: paren_row_cases keys_def)
next
  case (DictList ds)
  then show ?thesis
    by (cases ds) (simp_all add: map_raising_paren_row paren_row_cases keys_def)
qed

text \<open>
  C1. For the single-mapping form the specification expects
  \<^verbatim>\<open>insert(t, {a:1,b:"x"})\<close> to return the INSERT statement with the columns \<^verbatim>\<open>a, b\<close>
  and the values \<^verbatim>\<open>1, 'x'\<close>. The source does not return on this input: joining the
  one-element sets raises \<^verbatim>\<open>TypeError\<close>.
\<close>

theorem insert_single_mapping_raises:
  "insert_sql ''t'' (Dict [(''a'', PyInt 1), (''b'', PyStr ''x'')]) = Inl TypeError"
  by (simp add: paren_row_def args_serialise_def join_objs_def py_values_def)

text \<open>
  C2. For every \<^verbatim>\<open>names_values\<close> that contains at least one column, \<^verbatim>\<open>insert\<close> raises
  \<^verbatim>\<open>TypeError\<close> instead of returning a string; \<^verbatim>\<open>TypeError\<close> is raised on no other
  argument, and on the empty mapping \<^verbatim>\<open>insert\<close> returns a statement with empty column
  and value lists.
\<close>

theorem insert_has_column_TypeError:
  "(has_column nv \<longrightarrow> insert_sql t nv = Inl TypeError) \<and>
   (insert_sql t nv = Inl TypeError \<longrightarrow> has_column nv) \<and>
   insert_sql t (Dict []) = Inr (insert_tail t [] ''()'')"
  by (simp add: insert_sql_cases split: names_values.splits)

theorem insert_has_column_TypeError_witness:
  "has_column (DictList [[(''a'', PyInt 1)], [(''a'', PyInt 2)]]) \<and>
   insert_sql ''t'' (DictList [[(''a'', PyInt 1)], [(''a'', PyInt 2)]]) = Inl TypeError"
  using insert_has_column_TypeError [of "DictList [[(''a'', PyInt 1)], [(''a'', PyInt 2)]]" "''t''"]
  by simp

section \<open>The final semicolon\<close>

text \<open>
  \<^verbatim>\<open>insert\<close> (where it returns), \<^verbatim>\<open>update\<close> with a condition, \<^verbatim>\<open>create_table\<close>,
  \<^verbatim>\<open>procedure_call\<close>, \<^verbatim>\<open>drop_table\<close> and \<^verbatim>\<open>select\<close> end their result with a semicolon:
  each appends it on its last line. \<^verbatim>\<open>update\<close> appends it inside the branch that writes
  the WHERE clause.
\<close>

lemma last_insert_tail: "last (insert_tail t ns vs) = CHR '';''"
  by (simp add: insert_tail_def)

lemma insert_sql_semicolon: "insert_sql t nv = Inr s \<Longrightarrow> last s = CHR '';''"
  by (auto simp: insert_sql_cases last_insert_tail split: if_splits names_values.splits)

lemma update_where_semicolon: "last (update t d (Some w)) = CHR '';''"
  by (simp add: update_def Let_def)

lemma create_table_semicolon: "last (create_table t d) = CHR '';''"
  by (simp add: create_table_def Let_def)

lemma procedure_call_semicolon: "last (procedure_call p d) = CHR '';''"
  by (simp add: procedure_call_def)

lemma drop_table_semicolon: "last (drop_table tn ie c r) = CHR '';''"
  by (simp add: drop_table_def Let_def)

lemma select_semicolon: "last (select c frm d w g h ob od l off f) = CHR '';''"
  by (simp add: select_def Let_def)

text \<open>
  C5. Every builder, on every input on which it returns, is expected to return a string
  whose last character is a semicolon. \<^verbatim>\<open>update\<close> without a condition returns the SET
  list with nothing after it: on \<^verbatim>\<open>update('t', {'a': 1})\<close> the result ends with the
  rendered value, and on the empty mapping with the blank after SET.
\<close>

theorem update_without_where_no_semicolon:
  "update ''t'' [(''a'', PyInt 1)] None = ''UPDATE t\<newline>SET a = 1'' \<and>
   last (update ''t'' [(''a'', PyInt 1)] None) \<noteq> CHR '';'' \<and>
   update ''t'' [] None = ''UPDATE t\<newline>SET '' \<and>
   last (update ''t'' [] None) \<noteq> CHR '';''"
  by (simp add: update_def items_def str_of_int_def str_of_nat.simps digit_def)

section \<open>Properties of \<^verbatim>\<open>update\<close>\<close>

text \<open>
  C7. \<^verbatim>\<open>update('t', {a:1}, 'id=5')\<close> returns a string that contains \<^verbatim>\<open>SET a = 1\<close> and ends
  with \<^verbatim>\<open>WHERE id=5;\<close>. The whole result is given as well.
\<close>

theorem update_with_where_example:
  "update ''t'' [(''a'', PyInt 1)] (Some ''id=5'') =
     ''UPDATE t\<newline>SET a = 1\<newline>WHERE id=5;'' \<and>
   sublist ''SET a = 1'' (update ''t'' [(''a'', PyInt 1)] (Some ''id=5'')) \<and>
   suffix ''WHERE id=5;'' (update ''t'' [(''a'', PyInt 1)] (Some ''id=5''))"
  by (simp add: update_def items_def str_of_int_def str_of_nat.simps digit_def
        sublist_Cons_right suffix_to_prefix)

section \<open>Properties of \<^verbatim>\<open>drop_table\<close>\<close>

text \<open>
  C4, as stated: with both \<^verbatim>\<open>cascade\<close> and \<^verbatim>\<open>restrict\<close> set, the result contains CASCADE
  and does not contain RESTRICT. It fails on \<^verbatim>\<open>drop_table('t', cascade=True, restrict=True)\<close>,
  whose result \<^verbatim>\<open>DROP TABLE t;\<close> contains neither keyword.
\<close>

theorem drop_table_cascade_and_restrict_counterexample:
  "\<not> (sublist ''CASCADE'' (drop_table (Name ''t'') False True True) \<and>
      \<not> sublist ''RESTRICT'' (drop_table (Name ''t'') False True True))"
  by (simp add: drop_table_def sublist_Cons_right)

text \<open>
  C4, amended: with both \<^verbatim>\<open>cascade\<close> and \<^verbatim>\<open>restrict\<close> set, neither keyword is appended:
  the result is \<^verbatim>\<open>DROP TABLE\<close>, the IF EXISTS part when asked for, the table names and
  the semicolon, which is the result returned with both flags unset. Each keyword is
  guarded by the absence of the other flag. On \<^verbatim>\<open>drop_table('t', cascade=True,
  restrict=True)\<close> the result is \<^verbatim>\<open>DROP TABLE t;\<close>, which contains neither keyword.
\<close>

theorem drop_table_cascade_and_restrict:
  "drop_table table_names if_exists True True =
     ''DROP TABLE '' @ (if if_exists then '' IF EXISTS  '' else '''') @
     (case table_names of Name s \<Rightarrow> s | Names ns \<Rightarrow> join '', '' ns) @ '';'' \<and>
   drop_table table_names if_exists True True = drop_table table_names if_exists False False \<and>
   drop_table (Name ''t'') False True True = ''DROP TABLE t;'' \<and>
   \<not> sublist ''CASCADE'' (drop_table (Name ''t'') False True True) \<and>
   \<not> sublist ''RESTRICT'' (drop_table (Name ''t'') False True True)"
  by (simp add: drop_table_def sublist_Cons_right)

text \<open>
  C6, as stated: \<^verbatim>\<open>drop_table(["t1","t2"], if_exists=True)\<close> returns
  \<^verbatim>\<open>DROP TABLE IF EXISTS  t1, t2;\<close> with one blank between TABLE and IF. The source
  writes \<^verbatim>\<open>'DROP TABLE '\<close> and then \<^verbatim>\<open>' IF EXISTS  '\<close>, which gives two.
\<close>

theorem drop_table_if_exists_single_space_counterexample:
  "drop_table (Names [''t1'', ''t2'']) True False False \<noteq> ''DROP TABLE IF EXISTS  t1, t2;''"
  by (simp add: drop_table_def)

text \<open>
  C6, amended: the call returns exactly \<^verbatim>\<open>DROP TABLE  IF EXISTS  t1, t2;\<close>, with two
  blanks between TABLE and IF, two blanks between EXISTS and the first name, and the names
  joined by a comma and a blank.
\<close>

theorem drop_table_if_exists_two_names:
  "drop_table (Names [''t1'', ''t2'']) True False False = ''DROP TABLE  IF EXISTS  t1, t2;''"
  by (simp add: drop_table_def)

section \<open>Properties of \<^verbatim>\<open>select\<close>\<close>

text \<open>
  C3. \<^verbatim>\<open>select(['a'], 't', order_desc=True)\<close> without \<^verbatim>\<open>order_by\<close> is expected not to
  emit a bare \<^verbatim>\<open>ORDER BY DESC\<close>. The source takes the branch \<^verbatim>\<open>elif order_desc\<close> and
  emits it.
\<close>

theorem select_order_desc_without_order_by:
  "select (Tuple [''a'']) ''t'' False None None None None True None None None =
     ''SELECT a\<newline>FROM t\<newline>ORDER BY DESC;'' \<and>
   sublist ''ORDER BY DESC''
     (select (Tuple [''a'']) ''t'' False None None None None True None None None)"
  by (simp add: select_def sublist_Cons_right)

text \<open>
  C8. A plain string given as \<^verbatim>\<open>cols\<close> is split into its characters, which are joined
  with a comma and a blank: the result begins with \<^verbatim>\<open>SELECT\<close>, the optional
  \<^verbatim>\<open>DISTINCT\<close> and the characters so joined, so that \<^verbatim>\<open>select('ab', 't')\<close> begins with
  \<^verbatim>\<open>SELECT a, b\<close>. The same holds for a plain string given as \<^verbatim>\<open>group_by\<close> or as
  \<^verbatim>\<open>order_by\<close>: its characters, so joined, follow the keyword of the clause, at the
  place of the clause in the statement. In each of the three places the plain string
  gives the result that the tuple of its one-character strings gives.
\<close>

theorem select_plain_string_split:
  "prefix (''SELECT '' @ (if d then ''DISTINCT '' else '''') @ join '', '' (map (\<lambda>c. [c]) s) @
           ''\<newline>FROM '' @ frm)
     (select (PlainStr s) frm d w g h ob od l off f) \<and>
   prefix (''SELECT '' @ (if d then ''DISTINCT '' else '''') @ join '', '' (as_tuple cols) @
           ''\<newline>FROM '' @ frm @
           (case w of None \<Rightarrow> '''' | Some c \<Rightarrow> ''\<newline>WHERE '' @ c) @
           ''\<newline>GROUP BY '' @ join '', '' (map (\<lambda>c. [c]) s))
     (select cols frm d w (Some (PlainStr s)) h ob od l off f) \<and>
   prefix (''SELECT '' @ (if d then ''DISTINCT '' else '''') @ join '', '' (as_tuple cols) @
           ''\<newline>FROM '' @ frm @
           (case w of None \<Rightarrow> '''' | Some c \<Rightarrow> ''\<newline>WHERE '' @ c) @
           (case g of None \<Rightarrow> '''' | Some t \<Rightarrow> ''\<newline>GROUP BY '' @ join '', '' (as_tuple t)) @
           (case h of None \<Rightarrow> '''' | Some c \<Rightarrow> ''\<newline>HAVING '' @ c) @
           ''\<newline>ORDER BY '' @ join '', '' (map (\<lambda>c. [c]) s) @
           (if od then '' DESC'' else ''''))
     (select cols frm d w g h (Some (PlainStr s)) od l off f) \<and>
   select (PlainStr s) frm d w g h ob od l off f =
     select (Tuple (map (\<lambda>c. [c]) s)) frm d w g h ob od l off f \<and>
   select cols frm d w (Some (PlainStr s)) h ob od l off f =
     select cols frm d w (Some (Tuple (map (\<lambda>c. [c]) s))) h ob od l off f \<and>
   select cols frm d w g h (Some (PlainStr s)) od l off f =
     select cols frm d w g h (Some (Tuple (map (\<lambda>c. [c]) s))) od l off f \<and>
   prefix ''SELECT a, b''
     (select (PlainStr ''ab'') ''t'' False None None None None False None None None) \<and>
   join '', '' (map (\<lambda>c. [c]) ''ab'') = ''a, b''"
  by (simp add: select_def tuple_of_str_def Let_def split: option.splits)

text \<open>
  Whenever \<^verbatim>\<open>order_by\<close> is given or \<^verbatim>\<open>order_desc\<close> is false, the result of \<^verbatim>\<open>select\<close> is
  the concatenation of its clauses in the order SELECT, FROM, WHERE, GROUP BY, HAVING,
  ORDER BY, LIMIT, OFFSET, FETCH, in which an omitted clause is the empty string.
\<close>

lemma select_follows_clause_order:
  "order_by \<noteq> None \<or> \<not> order_desc \<Longrightarrow>
   select cols frm distinct' where' group_by having order_by order_desc limit offset fetch =
   select_spec cols frm distinct' where' group_by having order_by order_desc limit offset fetch"
  by (cases order_by)
     (simp_all add: select_def select_spec_def opt_clause_def Let_def split: option.splits)

text \<open>
  C9. For every combination of optional arguments \<^verbatim>\<open>select\<close> is expected to put its
  clauses in the fixed order, an omitted clause contributing nothing. On
  \<^verbatim>\<open>select(['a','b'], 't', where='a > 0', order_desc=True, limit=5)\<close> the argument
  \<^verbatim>\<open>order_by\<close> is omitted and the source still writes an ORDER BY line between the WHERE
  and the LIMIT clause, where the ordered concatenation of the given clauses has none.
\<close>

theorem select_omitted_order_by_emitted:
  "select (Tuple [''a'', ''b'']) ''t'' False (Some ''a > 0'') None None None True (Some 5) None None =
     ''SELECT a, b\<newline>FROM t\<newline>WHERE a > 0\<newline>ORDER BY DESC\<newline>LIMIT 5;'' \<and>
   select_spec (Tuple [''a'', ''b'']) ''t'' False (Some ''a > 0'') None None None True (Some 5) None None =
     ''SELECT a, b\<newline>FROM t\<newline>WHERE a > 0\<newline>LIMIT 5;''"
  by (simp add: select_def select_spec_def opt_clause_def str_of_int_def str_of_nat.simps
        digit_def)

end
